theory Spec2Isabelle
  imports Main "HOL-Library.Word"
begin

unbundle bit_operations_syntax

section \<open>Hinted handoff: the node processor of package hh\<close>

text \<open>
  The development follows \<^verbatim>\<open>hh/node_processor.go\<close> and the function
  \<^verbatim>\<open>dataNode\<close> of \<^verbatim>\<open>meta/store.go\<close>. Go values are embedded as follows:
  \<^verbatim>\<open>uint64\<close> is a 64-bit word, \<^verbatim>\<open>[]byte\<close> a list of 8-bit words, an
  \<^verbatim>\<open>error\<close> result a value of \<open>error option\<close> (\<open>None\<close> is \<^verbatim>\<open>nil\<close>).
\<close>

type_synonym byte = "8 word"
type_synonym uint64 = "64 word"

subsection \<open>Errors\<close>

text \<open>
  The error values the code compares against or builds. \<open>EOF\<close> is \<^verbatim>\<open>io.EOF\<close>,
  \<open>ErrNodeNotFound\<close> is \<^verbatim>\<open>meta.ErrNodeNotFound\<close>, \<open>ErrNotOpen\<close> is the queue's
  \<^verbatim>\<open>ErrNotOpen\<close>. The next four are the values built with \<^verbatim>\<open>fmt.Errorf\<close> in
  \<^verbatim>\<open>unmarshalWrite\<close>, \<^verbatim>\<open>Purge\<close>, \<^verbatim>\<open>WriteShard\<close> and \<^verbatim>\<open>Open\<close>. \<open>ErrOther\<close>
  stands for every other error value a collaborator may return, named by its message.
\<close>

datatype error =
    EOF
  | ErrNodeNotFound
  | ErrNotOpen
  | ErrQueueFull
  | ErrTooShort nat
  | ErrProcessorOpen
  | ErrProcessorClosed
  | ErrMkdirAll error
  | ErrOther string

subsection \<open>Byte order: \<^verbatim>\<open>binary.BigEndian\<close>\<close>

text \<open>
  \<^verbatim>\<open>PutUint64(b, v)\<close> stores \<^verbatim>\<open>byte(v >> 56)\<close>, ..., \<^verbatim>\<open>byte(v)\<close> in
  \<^verbatim>\<open>b[0]\<close>, ..., \<^verbatim>\<open>b[7]\<close>. In \<^verbatim>\<open>marshalWrite\<close> the buffer is
  \<^verbatim>\<open>make([]byte, 8)\<close>, so the eight bytes written are the whole buffer.
\<close>

definition PutUint64 :: "uint64 \<Rightarrow> byte list" where
  "PutUint64 v =
     [ucast (drop_bit 56 v), ucast (drop_bit 48 v), ucast (drop_bit 40 v), ucast (drop_bit 32 v),
      ucast (drop_bit 24 v), ucast (drop_bit 16 v), ucast (drop_bit 8 v), ucast v]"

text \<open>
  \<^verbatim>\<open>Uint64(b)\<close> reads \<^verbatim>\<open>b[0]\<close>, ..., \<^verbatim>\<open>b[7]\<close>; on a slice shorter than 8 bytes
  the index is out of range and the call panics, which is the value \<open>None\<close>.
\<close>

fun Uint64 :: "byte list \<Rightarrow> uint64 option" where
  "Uint64 (b0 # b1 # b2 # b3 # b4 # b5 # b6 # b7 # rest) =
     Some (ucast b7 OR push_bit 8 (ucast b6) OR push_bit 16 (ucast b5) OR push_bit 24 (ucast b4)
       OR push_bit 32 (ucast b3) OR push_bit 40 (ucast b2) OR push_bit 48 (ucast b1)
       OR push_bit 56 (ucast b0))"
| "Uint64 _ = None"

text \<open>
  The slice expressions \<^verbatim>\<open>b[:k]\<close> and \<^verbatim>\<open>b[k:]\<close>. A list has no spare capacity, so
  both panic (\<open>None\<close>) when \<open>k\<close> exceeds the length.
\<close>

definition slice_to :: "byte list \<Rightarrow> nat \<Rightarrow> byte list option" where
  "slice_to b k = (if k \<le> length b then Some (take k b) else None)"

definition slice_from :: "byte list \<Rightarrow> nat \<Rightarrow> byte list option" where
  "slice_from b k = (if k \<le> length b then Some (drop k b) else None)"

subsection \<open>Collaborators\<close>

text \<open>
  The point codec (package \<^verbatim>\<open>models\<close>), the metadata client and the shard writer are
  interfaces of other packages; they are parameters of the model. \<open>'p\<close> is the type of
  points, \<open>'w\<close> the state of the remote side that the shard writer may change.
  \<^item> \<open>MarshalBinary p\<close> is \<^verbatim>\<open>p.MarshalBinary()\<close>: the bytes, or an error.
  \<^item> \<open>ParsePoints\<close> is \<^verbatim>\<open>models.ParsePoints\<close>: the points parsed, and an error or nil.
  \<^item> \<open>DataNode w id\<close> is \<^verbatim>\<open>metaClient.DataNode(id)\<close>: a node-info pointer
    (\<open>None\<close> is nil) and an error or nil. Only whether the pointer is nil is used.
  \<^item> \<open>WriterWriteShard w shardID nodeID points\<close> is \<^verbatim>\<open>shardWriter.WriteShard\<close>.
\<close>

record NodeInfo =
  ID :: uint64
  Host :: string
  TCPHost :: string

record ('p, 'w) env =
  MarshalBinary :: "'p \<Rightarrow> error + byte list"
  ParsePoints :: "byte list \<Rightarrow> 'p list \<times> error option"
  DataNode :: "'w \<Rightarrow> uint64 \<Rightarrow> NodeInfo option \<times> error option"
  WriterWriteShard :: "'w \<Rightarrow> uint64 \<Rightarrow> uint64 \<Rightarrow> 'p list \<Rightarrow> error option \<times> 'w"

subsection \<open>\<^verbatim>\<open>marshalWrite\<close> and \<^verbatim>\<open>unmarshalWrite\<close>\<close>

text \<open>
  The loop of \<^verbatim>\<open>marshalWrite\<close> over the points, with \<^verbatim>\<open>totalPB\<close> as accumulator:
  a point whose \<^verbatim>\<open>MarshalBinary\<close> fails is skipped (\<^verbatim>\<open>continue\<close>), the bytes of
  every other point are appended, followed by a newline byte.
\<close>

fun marshalPoints :: "('p, 'w) env \<Rightarrow> byte list \<Rightarrow> 'p list \<Rightarrow> byte list" where
  "marshalPoints e totalPB [] = totalPB"
| "marshalPoints e totalPB (p # points) =
     (case MarshalBinary e p of
        Inl err \<Rightarrow> marshalPoints e totalPB points
      | Inr pB \<Rightarrow> marshalPoints e ((totalPB @ pB) @ [10]) points)"

definition marshalWrite :: "('p, 'w) env \<Rightarrow> uint64 \<Rightarrow> 'p list \<Rightarrow> byte list" where
  "marshalWrite e shardID points = PutUint64 shardID @ marshalPoints e [] points"

text \<open>
  \<^verbatim>\<open>unmarshalWrite\<close> returns the shard ID, the points and an error or nil; \<open>None\<close>
  is a panic of one of the slice operations.
\<close>

definition unmarshalWrite ::
  "('p, 'w) env \<Rightarrow> byte list \<Rightarrow> (uint64 \<times> 'p list \<times> error option) option" where
  "unmarshalWrite e b =
     (if length b < 8 then Some (0, [], Some (ErrTooShort (length b)))
      else
        (case slice_to b 8 of
           None \<Rightarrow> None
         | Some front \<Rightarrow>
             (case Uint64 front of
                None \<Rightarrow> None
              | Some shardID \<Rightarrow>
                  (case slice_from b 8 of
                     None \<Rightarrow> None
                   | Some rest \<Rightarrow>
                       (case ParsePoints e rest of
                          (points, err) \<Rightarrow> Some (shardID, points, err))))))"

text \<open>
  The payload that the specification describes: the encodings of the points that encode,
  each followed by a newline byte, in order.
\<close>

definition pointLines :: "('p, 'w) env \<Rightarrow> 'p list \<Rightarrow> byte list" where
  "pointLines e points =
     concat (map (\<lambda>p. case MarshalBinary e p of Inl err \<Rightarrow> [] | Inr pB \<Rightarrow> pB @ [10]) points)"

definition encodes :: "('p, 'w) env \<Rightarrow> 'p \<Rightarrow> bool" where
  "encodes e p = (case MarshalBinary e p of Inl err \<Rightarrow> False | Inr pB \<Rightarrow> True)"

subsection \<open>A line codec and a recording writer, to instantiate the parameters\<close>

text \<open>
  A point is a line of bytes. A line that is empty or holds a newline byte has no encoding;
  parsing splits the payload at the newline bytes. The remote state is the list of writes
  received; the writer fails with a generic error on shard 13 and succeeds elsewhere; the
  metadata client knows the data nodes 1 and 2 and fails with a generic error for node 99.
\<close>

fun splitLines :: "byte list \<Rightarrow> byte list \<Rightarrow> byte list list" where
  "splitLines cur [] = (if cur = [] then [] else [cur])"
| "splitLines cur (x # xs) = (if x = 10 then cur # splitLines [] xs else splitLines (cur @ [x]) xs)"

definition lineEnv :: "(byte list, (uint64 \<times> uint64 \<times> byte list list) list) env" where
  "lineEnv =
     \<lparr> MarshalBinary = (\<lambda>p. if p = [] \<or> 10 \<in> set p then Inl (ErrOther ''no line'') else Inr p),
       ParsePoints = (\<lambda>b. (splitLines [] b, None)),
       DataNode = (\<lambda>w id.
          if id = 99 then (None, Some (ErrOther ''connection refused''))
          else if id = 1 \<or> id = 2 then (Some \<lparr> ID = id, Host = ''h'', TCPHost = ''t'' \<rparr>, None)
          else (None, None)),
       WriterWriteShard = (\<lambda>w shardID nodeID points.
          if shardID = 13 then (Some (ErrOther ''connection refused''), w)
          else (None, w @ [(shardID, nodeID, points)])) \<rparr>"

text \<open>
  Two more codecs. In \<open>rawEnv\<close> every line encodes as itself, also a line that holds a
  newline byte. In \<open>eofEnv\<close> the parser rejects every payload with the error value
  \<^verbatim>\<open>io.EOF\<close>.
\<close>

definition rawEnv :: "(byte list, (uint64 \<times> uint64 \<times> byte list list) list) env" where
  "rawEnv = lineEnv\<lparr>MarshalBinary := Inr\<rparr>"

definition eofEnv :: "(byte list, (uint64 \<times> uint64 \<times> byte list list) list) env" where
  "eofEnv = lineEnv\<lparr>ParsePoints := (\<lambda>b. ([], Some EOF))\<rparr>"

section \<open>The metadata store: \<^verbatim>\<open>dataNode\<close> of meta/store.go\<close>

text \<open>
  Of the store only the cluster data is read here; of the data only the two node lists are
  kept. The lock taken by \<^verbatim>\<open>dataNode\<close> makes the call atomic and is not represented.
\<close>

record Data =
  MetaNodes :: "NodeInfo list"
  DataNodes :: "NodeInfo list"

record store =
  data :: Data

text \<open>The loop over \<^verbatim>\<open>s.data.DataNodes\<close>: the first node with the ID is copied and returned.\<close>

fun dataNodeLoop :: "NodeInfo list \<Rightarrow> uint64 \<Rightarrow> NodeInfo option" where
  "dataNodeLoop [] nid = None"
| "dataNodeLoop (n # ns) nid =
     (if ID n = nid then Some \<lparr> ID = ID n, Host = Host n, TCPHost = TCPHost n \<rparr>
      else dataNodeLoop ns nid)"

definition dataNode :: "store \<Rightarrow> uint64 \<Rightarrow> NodeInfo option" where
  "dataNode s nid = dataNodeLoop (DataNodes (data s)) nid"

text \<open>A metadata client that answers from a store and never fails.\<close>

definition storeClient :: "store \<Rightarrow> 'w \<Rightarrow> uint64 \<Rightarrow> NodeInfo option \<times> error option" where
  "storeClient s w nid = (dataNode s nid, None)"

section \<open>The disk and the queue\<close>

subsection \<open>Directories\<close>

text \<open>
  The disk maps a path to what is there: a regular file, or a directory that holds the
  segment files of a queue, in the order of their IDs. A segment file is kept as its ID and
  the blocks not yet consumed (the records from the read position to the end).
  \<^verbatim>\<open>os.MkdirAll\<close> leaves an existing directory as it is and fails on a regular file;
  \<^verbatim>\<open>os.RemoveAll\<close> removes the path and everything below it and returns nil.
\<close>

type_synonym block = "byte list"

record segment =
  seg_id :: nat
  seg_blocks :: "block list"

datatype node = RegularFile | Directory "segment list"

type_synonym disk = "string \<Rightarrow> node option"

definition os_MkdirAll :: "string \<Rightarrow> disk \<Rightarrow> error option \<times> disk" where
  "os_MkdirAll path d =
     (case d path of
        None \<Rightarrow> (None, d(path \<mapsto> Directory []))
      | Some RegularFile \<Rightarrow> (Some (ErrOther ''not a directory''), d)
      | Some (Directory segs) \<Rightarrow> (None, d))"

definition below :: "string \<Rightarrow> string \<Rightarrow> bool" where
  "below path p = (p = path \<or> take (length path + 1) p = path @ ''/'')"

definition os_RemoveAll :: "string \<Rightarrow> disk \<Rightarrow> error option \<times> disk" where
  "os_RemoveAll path d = (None, (\<lambda>p. if below path p then None else d p))"

subsection \<open>The queue\<close>

text \<open>
  Modelled from the spec: the queue of hh/queue.go (type \<^verbatim>\<open>queue\<close>, \<^verbatim>\<open>newQueue\<close>,
  \<^verbatim>\<open>Open\<close>, \<^verbatim>\<open>Close\<close>, \<^verbatim>\<open>Append\<close>, \<^verbatim>\<open>Current\<close>, \<^verbatim>\<open>Advance\<close>,
  \<^verbatim>\<open>TotalBytes\<close>, \<^verbatim>\<open>totalSegments\<close>), which is not among the sources. The queue
  object is a handle on its directory; every operation reads and writes the segment files
  there. A record takes 8 bytes of length and the block. The limit on the size of a segment
  is not an argument of \<^verbatim>\<open>newQueue\<close>; the model fixes it to 10 MiB.
\<close>

record queue =
  q_dir :: string
  q_maxSize :: int
  q_maxSegmentSize :: int
  q_opened :: bool

definition defaultSegmentSize :: int where
  "defaultSegmentSize = 10 * 1024 * 1024"

definition newQueue :: "string \<Rightarrow> int \<Rightarrow> error + queue" where
  "newQueue path maxSize =
     Inr \<lparr> q_dir = path, q_maxSize = maxSize, q_maxSegmentSize = defaultSegmentSize,
           q_opened = False \<rparr>"

definition seg_size :: "segment \<Rightarrow> int" where
  "seg_size s = sum_list (map (\<lambda>b. 8 + int (length b)) (seg_blocks s))"

definition totalBytes :: "segment list \<Rightarrow> int" where
  "totalBytes segs = sum_list (map seg_size segs)"

text \<open>
  Modelled from the spec: \<open>open()\<close> creates the directory if missing and lists the segment
  files; if the directory is empty it creates segment 1.
\<close>

definition queue_Open :: "queue \<Rightarrow> disk \<Rightarrow> error option \<times> queue \<times> disk" where
  "queue_Open q d =
     (case os_MkdirAll (q_dir q) d of
        (Some err, d1) \<Rightarrow> (Some err, q, d1)
      | (None, d1) \<Rightarrow>
          (case d1 (q_dir q) of
             None \<Rightarrow> (Some (ErrOther ''no such directory''), q, d1)
           | Some RegularFile \<Rightarrow> (Some (ErrOther ''not a directory''), q, d1)
           | Some (Directory segs) \<Rightarrow>
               (if segs = []
                then (None, q\<lparr>q_opened := True\<rparr>,
                      d1(q_dir q \<mapsto> Directory [\<lparr> seg_id = 1, seg_blocks = [] \<rparr>]))
                else (None, q\<lparr>q_opened := True\<rparr>, d1))))"

text \<open>Modelled from the spec: \<open>close()\<close> closes all open segments.\<close>

definition queue_Close :: "queue \<Rightarrow> error option \<times> queue" where
  "queue_Close q = (None, q\<lparr>q_opened := False\<rparr>)"

text \<open>
  Modelled from the spec: \<open>current()\<close> delegates to the head segment; if the head reports
  EOF, the drained segment is deleted, the head is set to the next segment and the read is
  retried once; if there is no next segment the result is EOF.
\<close>

fun current_segs :: "segment list \<Rightarrow> (error + block) \<times> segment list" where
  "current_segs [] = (Inl EOF, [])"
| "current_segs (h # rest) =
     (case seg_blocks h of
        b # bs \<Rightarrow> (Inr b, h # rest)
      | [] \<Rightarrow>
          (case rest of
             [] \<Rightarrow> (Inl EOF, [h])
           | h2 # rest2 \<Rightarrow>
               (case seg_blocks h2 of
                  b # bs \<Rightarrow> (Inr b, h2 # rest2)
                | [] \<Rightarrow> (Inl EOF, h2 # rest2))))"

definition queue_Current :: "queue \<Rightarrow> disk \<Rightarrow> (error + block) \<times> disk" where
  "queue_Current q d =
     (if \<not> q_opened q then (Inl ErrNotOpen, d)
      else
        (case d (q_dir q) of
           None \<Rightarrow> (Inl (ErrOther ''no such directory''), d)
         | Some RegularFile \<Rightarrow> (Inl (ErrOther ''not a directory''), d)
         | Some (Directory segs) \<Rightarrow>
             (case current_segs segs of
                (r, segs1) \<Rightarrow> (r, d(q_dir q \<mapsto> Directory segs1)))))"

text \<open>
  Modelled from the spec: \<open>advance()\<close> delegates to the head segment, which fails with EOF
  when nothing is left to consume; if the head becomes empty and is not the tail, it is
  deleted and the head moves forward.
\<close>

fun advance_segs :: "segment list \<Rightarrow> error option \<times> segment list" where
  "advance_segs [] = (Some EOF, [])"
| "advance_segs (h # rest) =
     (case seg_blocks h of
        [] \<Rightarrow> (Some EOF, h # rest)
      | b # bs \<Rightarrow>
          (if bs = [] \<and> rest \<noteq> [] then (None, rest)
           else (None, h\<lparr>seg_blocks := bs\<rparr> # rest)))"

definition queue_Advance :: "queue \<Rightarrow> disk \<Rightarrow> error option \<times> disk" where
  "queue_Advance q d =
     (if \<not> q_opened q then (Some ErrNotOpen, d)
      else
        (case d (q_dir q) of
           None \<Rightarrow> (Some (ErrOther ''no such directory''), d)
         | Some RegularFile \<Rightarrow> (Some (ErrOther ''not a directory''), d)
         | Some (Directory segs) \<Rightarrow>
             (case advance_segs segs of
                (r, segs1) \<Rightarrow> (r, d(q_dir q \<mapsto> Directory segs1)))))"

text \<open>
  Modelled from the spec: \<open>append(block)\<close>. (1) While the total size plus the record
  exceeds MaxSize, head segments are dropped, until the record fits or no segment remains;
  a block that alone exceeds MaxSize fails with queue full. (2) If the tail's size plus the
  record exceeds the segment limit, the tail is sealed and a segment with the next ID is
  created. (3) The block is appended to the tail; a segment refuses a record that takes it
  over the segment limit.
\<close>

fun dropHead :: "int \<Rightarrow> int \<Rightarrow> segment list \<Rightarrow> segment list" where
  "dropHead maxSize need [] = []"
| "dropHead maxSize need (h # rest) =
     (if totalBytes (h # rest) + need > maxSize then dropHead maxSize need rest else h # rest)"

definition append_segs ::
  "int \<Rightarrow> int \<Rightarrow> block \<Rightarrow> segment list \<Rightarrow> error option \<times> segment list" where
  "append_segs maxSize maxSegmentSize b segs =
     (let need = 8 + int (length b);
          kept = dropHead maxSize need segs;
          lastID = (if segs = [] then 0 else seg_id (last segs))
      in if need > maxSize then (Some ErrQueueFull, kept)
         else if need > maxSegmentSize then (Some (ErrOther ''segment full''), kept)
         else if kept = [] then (None, [\<lparr> seg_id = lastID + 1, seg_blocks = [b] \<rparr>])
         else if seg_size (last kept) + need > maxSegmentSize
           then (None, kept @ [\<lparr> seg_id = seg_id (last kept) + 1, seg_blocks = [b] \<rparr>])
         else (None, butlast kept @ [(last kept)\<lparr>seg_blocks := seg_blocks (last kept) @ [b]\<rparr>]))"

definition queue_Append :: "queue \<Rightarrow> block \<Rightarrow> disk \<Rightarrow> error option \<times> disk" where
  "queue_Append q b d =
     (if \<not> q_opened q then (Some ErrNotOpen, d)
      else
        (case d (q_dir q) of
           None \<Rightarrow> (Some (ErrOther ''no such directory''), d)
         | Some RegularFile \<Rightarrow> (Some (ErrOther ''not a directory''), d)
         | Some (Directory segs) \<Rightarrow>
             (case append_segs (q_maxSize q) (q_maxSegmentSize q) b segs of
                (r, segs1) \<Rightarrow> (r, d(q_dir q \<mapsto> Directory segs1)))))"

text \<open>Modelled from the spec: the aggregate views \<open>totalBytes()\<close> and \<open>totalSegments()\<close>.\<close>

definition queue_TotalBytes :: "queue \<Rightarrow> disk \<Rightarrow> int" where
  "queue_TotalBytes q d =
     (case d (q_dir q) of Some (Directory segs) \<Rightarrow> totalBytes segs | _ \<Rightarrow> 0)"

definition queue_totalSegments :: "queue \<Rightarrow> disk \<Rightarrow> int" where
  "queue_totalSegments q d =
     (case d (q_dir q) of Some (Directory segs) \<Rightarrow> int (length segs) | _ \<Rightarrow> 0)"

text \<open>The blocks waiting in a queue directory, oldest first.\<close>

definition pending :: "string \<Rightarrow> disk \<Rightarrow> block list" where
  "pending path d =
     (case d path of Some (Directory segs) \<Rightarrow> concat (map seg_blocks segs) | _ \<Rightarrow> [])"

section \<open>The node processor\<close>

text \<open>
  \<^verbatim>\<open>Config\<close> (hh/config.go) is not among the sources; the record has the fields that
  node_processor.go reads. Durations are in nanoseconds, as \<^verbatim>\<open>time.Duration\<close>.
  The counters are \<^verbatim>\<open>int64\<close> values that only grow by small steps from 0; they are
  kept as integers.
\<close>

record Config =
  MaxSize :: int
  MaxAge :: int
  RetryRateLimit :: int
  RetryInterval :: int
  RetryMaxInterval :: int
  PurgeInterval :: int

record Statistics =
  WriteShardReq :: int
  WriteShardReqPoints :: int
  WriteNodeReqFail :: int
  WriteNodeReqPoints :: int
  WriteNodeReq :: int
  WriteShardConcurrentlyReq :: int
  WriteShardConcurrentlyFail :: int
  WriteShardConcurrentlyPoints :: int
  WriteDiskBytes :: int
  WriteDiskSegments :: int

text \<open>
  The field \<^verbatim>\<open>done\<close> is a channel or nil; a channel is open or closed. \<^verbatim>\<open>wg\<close>
  is the counter of the wait group: the number of worker goroutines that have not returned.
  \<^verbatim>\<open>queue\<close> is a pointer, nil before the first successful \<^verbatim>\<open>Open\<close>. The fields
  \<^verbatim>\<open>meta\<close> and \<^verbatim>\<open>writer\<close> are the collaborators of the environment; the lock, the
  tags and the logger are not represented: every method runs under the lock as one step, and
  log lines are not part of the state.
\<close>

datatype chan = ChanOpen | ChanClosed

record NodeProcessor =
  cfg :: Config
  nodeID :: uint64
  dir :: string
  done_chan :: "chan option"
  wg :: nat
  queue :: "queue option"
  stats :: Statistics

text \<open>
  A call returns, panics (a nil pointer is dereferenced or an index is out of range), or
  blocks for ever.
\<close>

datatype 'a outcome = Return 'a | Panic | Block

definition NewNodeProcessor :: "uint64 \<Rightarrow> string \<Rightarrow> Config \<Rightarrow> NodeProcessor" where
  "NewNodeProcessor nid path c =
     \<lparr> cfg = c, nodeID = nid, dir = path, done_chan = None, wg = 0, queue = None,
       stats = \<lparr> WriteShardReq = 0, WriteShardReqPoints = 0, WriteNodeReqFail = 0,
                 WriteNodeReqPoints = 0, WriteNodeReq = 0, WriteShardConcurrentlyReq = 0,
                 WriteShardConcurrentlyFail = 0, WriteShardConcurrentlyPoints = 0,
                 WriteDiskBytes = 0, WriteDiskSegments = 0 \<rparr> \<rparr>"

subsection \<open>\<^verbatim>\<open>Open\<close>, \<^verbatim>\<open>Close\<close>, \<^verbatim>\<open>Closed\<close>, \<^verbatim>\<open>Purge\<close>\<close>

text \<open>
  \<^verbatim>\<open>Open\<close> sets \<^verbatim>\<open>done\<close> before it creates the directory and the queue, and an
  early return leaves it set. \<^verbatim>\<open>go n.run()\<close> adds a worker: the counter of the wait
  group goes up by one.
\<close>

definition Open :: "NodeProcessor \<Rightarrow> disk \<Rightarrow> error option \<times> NodeProcessor \<times> disk" where
  "Open n d =
     (if done_chan n \<noteq> None then (None, n, d)
      else
        (let n1 = n\<lparr>done_chan := Some ChanOpen\<rparr> in
         case os_MkdirAll (dir n1) d of
           (Some err, d1) \<Rightarrow> (Some (ErrMkdirAll err), n1, d1)
         | (None, d1) \<Rightarrow>
             (case newQueue (dir n1) (MaxSize (cfg n1)) of
                Inl err \<Rightarrow> (Some err, n1, d1)
              | Inr q0 \<Rightarrow>
                  (case queue_Open q0 d1 of
                     (Some err, q1, d2) \<Rightarrow> (Some err, n1, d2)
                   | (None, q1, d2) \<Rightarrow>
                       (None,
                        n1\<lparr>stats := (stats n1)\<lparr>WriteDiskBytes := queue_TotalBytes q1 d2\<rparr>,
                           wg := wg n1 + 1,
                           queue := Some q1\<rparr>,
                        d2)))))"

text \<open>
  \<^verbatim>\<open>Close\<close> closes the channel and waits for the wait group: the worker sees the closed
  channel at its next \<^verbatim>\<open>select\<close> and returns, so the counter is 0 when the wait ends.
  Then \<^verbatim>\<open>done\<close> is set to nil and the queue is closed; with a nil queue pointer that
  call panics.
\<close>

definition Close :: "NodeProcessor \<Rightarrow> (error option \<times> NodeProcessor) outcome" where
  "Close n =
     (if done_chan n = None then Return (None, n)
      else
        (let n1 = n\<lparr>done_chan := Some ChanClosed\<rparr>;
             n2 = n1\<lparr>wg := 0\<rparr>;
             n3 = n2\<lparr>done_chan := None\<rparr>
         in case queue n3 of
              None \<Rightarrow> Panic
            | Some q \<Rightarrow>
                (case queue_Close q of
                   (err, q1) \<Rightarrow> Return (err, n3\<lparr>queue := Some q1\<rparr>))))"

definition Closed :: "NodeProcessor \<Rightarrow> bool" where
  "Closed n =
     (case done_chan n of
        Some ChanClosed \<Rightarrow> True
      | _ \<Rightarrow> done_chan n = None)"

definition Purge :: "NodeProcessor \<Rightarrow> disk \<Rightarrow> error option \<times> disk" where
  "Purge n d =
     (if done_chan n \<noteq> None then (Some ErrProcessorOpen, d)
      else os_RemoveAll (dir n) d)"

subsection \<open>\<^verbatim>\<open>WriteShard\<close>\<close>

text \<open>
  The goroutine started by \<^verbatim>\<open>WriteShard\<close> stores the number of segments and of bytes of
  the queue in the statistics; it is taken to run at once, before the append. It and the
  append dereference the queue pointer. When the append fails with \<^verbatim>\<open>ErrNotOpen\<close> the
  method waits to receive from \<^verbatim>\<open>done\<close>, which only a closed channel lets through.
\<close>

definition WriteShard ::
  "('p, 'w) env \<Rightarrow> NodeProcessor \<Rightarrow> disk \<Rightarrow> uint64 \<Rightarrow> 'p list
     \<Rightarrow> (error option \<times> NodeProcessor \<times> disk) outcome" where
  "WriteShard e n d shardID points =
     (if done_chan n = None then Return (Some ErrProcessorClosed, n, d)
      else
        (let n1 = n\<lparr>stats := (stats n)\<lparr>WriteShardReq := WriteShardReq (stats n) + 1\<rparr>\<rparr>;
             n2 = n1\<lparr>stats := (stats n1)
                    \<lparr>WriteShardReqPoints := WriteShardReqPoints (stats n1) + int (length points)\<rparr>\<rparr>
         in case queue n2 of
              None \<Rightarrow> Panic
            | Some q \<Rightarrow>
                (let n3 = n2\<lparr>stats := (stats n2)\<lparr>WriteDiskSegments := queue_totalSegments q d\<rparr>\<rparr>;
                     n4 = n3\<lparr>stats := (stats n3)\<lparr>WriteDiskBytes := queue_TotalBytes q d\<rparr>\<rparr>;
                     b = marshalWrite e shardID points
                 in if length b = 0 then Return (None, n4, d)
                    else
                      (case queue_Append q b d of
                         (Some err, d1) \<Rightarrow>
                           (if err = ErrNotOpen
                            then (case done_chan n4 of
                                    Some ChanClosed \<Rightarrow> Return (Some err, n4, d1)
                                  | _ \<Rightarrow> Block)
                            else Return (Some err, n4, d1))
                       | (None, d1) \<Rightarrow>
                           Return (None,
                             n4\<lparr>stats := (stats n4)\<lparr>WriteShardReq := WriteShardReq (stats n4) + 1\<rparr>\<rparr>,
                             d1)))))"

subsection \<open>\<^verbatim>\<open>Active\<close> and \<^verbatim>\<open>SendWrite\<close>\<close>

definition Active :: "('p, 'w) env \<Rightarrow> NodeProcessor \<Rightarrow> 'w \<Rightarrow> bool \<times> error option" where
  "Active e n w =
     (case DataNode e w (nodeID n) of
        (nio, Some err) \<Rightarrow> (False, Some err)
      | (nio, None) \<Rightarrow> (nio \<noteq> None, None))"

text \<open>
  The goroutine of \<^verbatim>\<open>SendWrite\<close>: it decodes the block, calls the shard writer and sends
  one value on the channel, which \<^verbatim>\<open>SendWrite\<close> receives as \<^verbatim>\<open>r\<close>. The result is
  that value, with the counters as the goroutine leaves them.
\<close>

definition sendBlock ::
  "('p, 'w) env \<Rightarrow> NodeProcessor \<Rightarrow> 'w \<Rightarrow> byte list
     \<Rightarrow> (error option \<times> NodeProcessor \<times> 'w) outcome" where
  "sendBlock e n w buf =
     (case unmarshalWrite e buf of
        None \<Rightarrow> Panic
      | Some (shardID, points, Some err) \<Rightarrow>
          Return (Some err,
            n\<lparr>stats := (stats n)\<lparr>WriteNodeReqFail := WriteNodeReqFail (stats n) + 1\<rparr>\<rparr>, w)
      | Some (shardID, points, None) \<Rightarrow>
          (case WriterWriteShard e w shardID (nodeID n) points of
             (Some err, w1) \<Rightarrow> Return (Some err, n, w1)
           | (None, w1) \<Rightarrow>
               (let n1 = n\<lparr>stats := (stats n)\<lparr>WriteShardReq := WriteShardReq (stats n) + 1\<rparr>\<rparr>;
                    n2 = n1\<lparr>stats := (stats n1)\<lparr>WriteNodeReq := WriteNodeReq (stats n1) + 1\<rparr>\<rparr>;
                    n3 = n2\<lparr>stats := (stats n2)
                           \<lparr>WriteNodeReqPoints := WriteNodeReqPoints (stats n2) + int (length points)\<rparr>\<rparr>
                in Return (None, n3, w1))))"

text \<open>
  \<^verbatim>\<open>SendWrite\<close> returns the number of bytes and an error or nil. A non-nil \<^verbatim>\<open>r\<close> is
  returned only when it is \<^verbatim>\<open>io.EOF\<close> or \<^verbatim>\<open>meta.ErrNodeNotFound\<close>; every other
  value of \<^verbatim>\<open>r\<close>, nil or not, goes on to \<^verbatim>\<open>n.queue.Advance()\<close>, whose error is only
  logged, and to \<^verbatim>\<open>return len(buf), nil\<close>.
\<close>

definition SendWrite ::
  "('p, 'w) env \<Rightarrow> NodeProcessor \<Rightarrow> disk \<Rightarrow> 'w
     \<Rightarrow> ((nat \<times> error option) \<times> NodeProcessor \<times> disk \<times> 'w) outcome" where
  "SendWrite e n d w =
     (case Active e n w of
        (active, Some err) \<Rightarrow> Return ((0, Some err), n, d, w)
      | (active, None) \<Rightarrow>
          (if \<not> active then Return ((0, Some EOF), n, d, w)
           else
             (case queue n of
                None \<Rightarrow> Panic
              | Some q \<Rightarrow>
                  (case queue_Current q d of
                     (Inl err, d1) \<Rightarrow> Return ((0, Some err), n, d1, w)
                   | (Inr buf, d1) \<Rightarrow>
                       (case sendBlock e n w buf of
                          Panic \<Rightarrow> Panic
                        | Block \<Rightarrow> Block
                        | Return (r, n1, w1) \<Rightarrow>
                            (if r = Some EOF \<or> r = Some ErrNodeNotFound
                             then Return ((0, r), n1, d1, w1)
                             else
                               (case queue_Advance q d1 of
                                  (aerr, d2) \<Rightarrow> Return ((length buf, None), n1, d2, w1))))))))"

subsection \<open>The worker: \<^verbatim>\<open>run\<close>\<close>

text \<open>
  \<^verbatim>\<open>run\<close> starts with the retry interval of the configuration, capped at the
  maximum. Each round of its outer loop makes a retry ticker with the current interval;
  when that ticker fires, the inner loop calls \<^verbatim>\<open>SendWrite\<close> until it returns an error.
  \<open>retryTick\<close> is the inner loop: it ends with the worker waiting for the next tick with
  a new interval, or with the worker gone (\<^verbatim>\<open>return\<close>, and the deferred
  \<^verbatim>\<open>n.wg.Done()\<close>). The first argument bounds the number of rounds of the loop; \<open>None\<close>
  says that the bound was reached. The purge ticker and the sleep of the rate limiter only
  concern time and are not represented.
\<close>

definition run_start :: "Config \<Rightarrow> int" where
  "run_start c =
     (if RetryInterval c > RetryMaxInterval c then RetryMaxInterval c else RetryInterval c)"

datatype worker = Waiting int | Exited

fun retryTick ::
  "nat \<Rightarrow> ('p, 'w) env \<Rightarrow> int \<Rightarrow> NodeProcessor \<Rightarrow> disk \<Rightarrow> 'w
     \<Rightarrow> (worker \<times> NodeProcessor \<times> disk \<times> 'w) outcome option" where
  "retryTick 0 e currInterval n d w = None"
| "retryTick (Suc fuel) e currInterval n d w =
     (case SendWrite e n d w of
        Panic \<Rightarrow> Some Panic
      | Block \<Rightarrow> Some Block
      | Return ((c, Some err), n1, d1, w1) \<Rightarrow>
          (if err = EOF then Some (Return (Waiting (RetryInterval (cfg n1)), n1, d1, w1))
           else if err = ErrNodeNotFound then Some (Return (Exited, n1\<lparr>wg := wg n1 - 1\<rparr>, d1, w1))
           else Some (Return
                  (Waiting (if currInterval > RetryMaxInterval (cfg n1)
                            then RetryMaxInterval (cfg n1) else currInterval),
                   n1, d1, w1)))
      | Return ((c, None), n1, d1, w1) \<Rightarrow> retryTick fuel e (RetryInterval (cfg n1)) n1 d1 w1)"

subsection \<open>A configuration and an opened processor, to instantiate the theorems\<close>

definition cfg0 :: Config where
  "cfg0 =
     \<lparr> MaxSize = 1048576, MaxAge = 0, RetryRateLimit = 0, RetryInterval = 100000000,
       RetryMaxInterval = 800000000, PurgeInterval = 3600000000000 \<rparr>"

definition proc0 :: "uint64 \<Rightarrow> NodeProcessor" where
  "proc0 nid = fst (snd (Open (NewNodeProcessor nid ''hh/n'' cfg0) Map.empty))"

definition disk0 :: disk where
  "disk0 = snd (snd (Open (NewNodeProcessor 2 ''hh/n'' cfg0) Map.empty))"

text \<open>
  The processor \<open>proc0 nid\<close> after \<^verbatim>\<open>Close\<close>, and a disk with more than the queue
  directory on it.
\<close>

definition closed0 :: "uint64 \<Rightarrow> NodeProcessor" where
  "closed0 nid = (case Close (proc0 nid) of Return (r, n) \<Rightarrow> n | _ \<Rightarrow> proc0 nid)"

definition disk1 :: disk where
  "disk1 = disk0(''hh/n/tmp'' \<mapsto> RegularFile, ''hh/m'' \<mapsto> Directory [], ''hh/nn'' \<mapsto> RegularFile)"

text \<open>
  One hinted write followed by one \<^verbatim>\<open>SendWrite\<close> of the worker, and what is
  observed of an outcome: the result, the five counters that do not depend on when the
  goroutine of \<^verbatim>\<open>WriteShard\<close> runs (\<^verbatim>\<open>WriteShardReq\<close>,
  \<^verbatim>\<open>WriteShardReqPoints\<close>, \<^verbatim>\<open>WriteNodeReq\<close>, \<^verbatim>\<open>WriteNodeReqPoints\<close>,
  \<^verbatim>\<open>WriteNodeReqFail\<close>), the blocks waiting in the directory and the state of the
  remote side.
\<close>

definition writeThenSend ::
  "('p, 'w) env \<Rightarrow> NodeProcessor \<Rightarrow> disk \<Rightarrow> 'w \<Rightarrow> uint64 \<Rightarrow> 'p list
     \<Rightarrow> ((nat \<times> error option) \<times> NodeProcessor \<times> disk \<times> 'w) outcome" where
  "writeThenSend e n d w shardID points =
     (case WriteShard e n d shardID points of
        Return (None, n1, d1) \<Rightarrow> SendWrite e n1 d1 w
      | Return (Some err, n1, d1) \<Rightarrow> Return ((0, Some err), n1, d1, w)
      | Panic \<Rightarrow> Panic
      | Block \<Rightarrow> Block)"

definition counters :: "Statistics \<Rightarrow> int \<times> int \<times> int \<times> int \<times> int" where
  "counters s =
     (WriteShardReq s, WriteShardReqPoints s, WriteNodeReq s, WriteNodeReqPoints s,
      WriteNodeReqFail s)"

definition observeWrite ::
  "string \<Rightarrow> (error option \<times> NodeProcessor \<times> disk) outcome
     \<Rightarrow> (error option \<times> (int \<times> int \<times> int \<times> int \<times> int) \<times> block list) option" where
  "observeWrite path oc =
     (case oc of
        Return (r, n, d) \<Rightarrow> Some (r, counters (stats n), pending path d)
      | _ \<Rightarrow> None)"

definition observeSend ::
  "string \<Rightarrow> ((nat \<times> error option) \<times> NodeProcessor \<times> disk \<times> 'w) outcome
     \<Rightarrow> ((nat \<times> error option) \<times> (int \<times> int \<times> int \<times> int \<times> int) \<times> block list \<times> 'w)
          option" where
  "observeSend path oc =
     (case oc of
        Return (r, n, d, w) \<Rightarrow> Some (r, counters (stats n), pending path d, w)
      | _ \<Rightarrow> None)"

definition observeTick ::
  "string \<Rightarrow> (worker \<times> NodeProcessor \<times> disk \<times> 'w) outcome option
     \<Rightarrow> (worker \<times> (int \<times> int \<times> int \<times> int \<times> int) \<times> block list \<times> 'w) option" where
  "observeTick path r =
     (case r of
        Some (Return (k, n, d, w)) \<Rightarrow> Some (k, counters (stats n), pending path d, w)
      | _ \<Rightarrow> None)"

section \<open>Properties of the block encoding\<close>

lemma length_PutUint64 [simp]: "length (PutUint64 v) = 8"
  by (simp add: PutUint64_def)

lemma bit_low_byte:
  "bit (ucast (ucast v :: byte) :: uint64) n \<longleftrightarrow> n < 8 \<and> bit v n" for v :: uint64
  by (auto simp add: bit_ucast_iff)

lemma bit_shifted_byte:
  "k + 8 \<le> 64 \<Longrightarrow>
     bit (push_bit k (ucast (ucast (drop_bit k v) :: byte)) :: uint64) n
       \<longleftrightarrow> k \<le> n \<and> n < k + 8 \<and> bit v n" for v :: uint64
  by (auto simp add: bit_push_bit_iff bit_ucast_iff bit_drop_bit_eq dest: bit_imp_le_length)

lemma Uint64_PutUint64: "Uint64 (PutUint64 v) = Some v"
proof -
  have "(ucast (ucast v :: byte) OR push_bit 8 (ucast (ucast (drop_bit 8 v) :: byte))
      OR push_bit 16 (ucast (ucast (drop_bit 16 v) :: byte))
      OR push_bit 24 (ucast (ucast (drop_bit 24 v) :: byte))
      OR push_bit 32 (ucast (ucast (drop_bit 32 v) :: byte))
      OR push_bit 40 (ucast (ucast (drop_bit 40 v) :: byte))
      OR push_bit 48 (ucast (ucast (drop_bit 48 v) :: byte))
      OR push_bit 56 (ucast (ucast (drop_bit 56 v) :: byte))) = v"
  proof (rule bit_word_eqI)
    fix n assume "n < LENGTH(64)"
    then have n: "n < 64" by simp
    have b0: "bit (ucast (ucast v :: byte) :: uint64) n \<longleftrightarrow> n < 8 \<and> bit v n"
      by (rule bit_low_byte)
    have b8: "bit (push_bit 8 (ucast (ucast (drop_bit 8 v) :: byte)) :: uint64) n
        \<longleftrightarrow> 8 \<le> n \<and> n < 16 \<and> bit v n"
      using bit_shifted_byte[of 8 v n] by simp
    have b16: "bit (push_bit 16 (ucast (ucast (drop_bit 16 v) :: byte)) :: uint64) n
        \<longleftrightarrow> 16 \<le> n \<and> n < 24 \<and> bit v n"
      using bit_shifted_byte[of 16 v n] by simp
    have b24: "bit (push_bit 24 (ucast (ucast (drop_bit 24 v) :: byte)) :: uint64) n
        \<longleftrightarrow> 24 \<le> n \<and> n < 32 \<and> bit v n"
      using bit_shifted_byte[of 24 v n] by simp
    have b32: "bit (push_bit 32 (ucast (ucast (drop_bit 32 v) :: byte)) :: uint64) n
        \<longleftrightarrow> 32 \<le> n \<and> n < 40 \<and> bit v n"
      using bit_shifted_byte[of 32 v n] by simp
    have b40: "bit (push_bit 40 (ucast (ucast (drop_bit 40 v) :: byte)) :: uint64) n
        \<longleftrightarrow> 40 \<le> n \<and> n < 48 \<and> bit v n"
      using bit_shifted_byte[of 40 v n] by simp
    have b48: "bit (push_bit 48 (ucast (ucast (drop_bit 48 v) :: byte)) :: uint64) n
        \<longleftrightarrow> 48 \<le> n \<and> n < 56 \<and> bit v n"
      using bit_shifted_byte[of 48 v n] by simp
    have b56: "bit (push_bit 56 (ucast (ucast (drop_bit 56 v) :: byte)) :: uint64) n
        \<longleftrightarrow> 56 \<le> n \<and> n < 64 \<and> bit v n"
      using bit_shifted_byte[of 56 v n] by simp
    have cover: "n < 8 \<or> (8 \<le> n \<and> n < 16) \<or> (16 \<le> n \<and> n < 24) \<or> (24 \<le> n \<and> n < 32)
        \<or> (32 \<le> n \<and> n < 40) \<or> (40 \<le> n \<and> n < 48) \<or> (48 \<le> n \<and> n < 56)
        \<or> (56 \<le> n \<and> n < 64)"
      using n by arith
    show "bit (ucast (ucast v :: byte) OR push_bit 8 (ucast (ucast (drop_bit 8 v) :: byte))
      OR push_bit 16 (ucast (ucast (drop_bit 16 v) :: byte))
      OR push_bit 24 (ucast (ucast (drop_bit 24 v) :: byte))
      OR push_bit 32 (ucast (ucast (drop_bit 32 v) :: byte))
      OR push_bit 40 (ucast (ucast (drop_bit 40 v) :: byte))
      OR push_bit 48 (ucast (ucast (drop_bit 48 v) :: byte))
      OR push_bit 56 (ucast (ucast (drop_bit 56 v) :: byte)) :: uint64) n = bit v n"
      unfolding bit_or_iff b0 b8 b16 b24 b32 b40 b48 b56 using cover by blast
  qed
  then show ?thesis by (simp add: PutUint64_def)
qed

lemma marshalPoints_acc: "marshalPoints e acc ps = acc @ pointLines e ps"
  by (induction ps arbitrary: acc) (simp_all add: pointLines_def split: sum.splits)

lemma marshalWrite_eq: "marshalWrite e shardID ps = PutUint64 shardID @ pointLines e ps"
  by (simp add: marshalWrite_def marshalPoints_acc)


lemma unmarshalWrite_long:
  "8 \<le> length b \<Longrightarrow> Uint64 (take 8 b) = Some sid \<Longrightarrow>
     unmarshalWrite e b = Some (sid, fst (ParsePoints e (drop 8 b)), snd (ParsePoints e (drop 8 b)))"
  by (simp add: unmarshalWrite_def slice_to_def slice_from_def split: prod.splits)

lemma Uint64_total: "8 \<le> length b \<Longrightarrow> \<exists>sid. Uint64 b = Some sid"
proof -
  assume "8 \<le> length b"
  then obtain b0 b1 b2 b3 b4 b5 b6 b7 rest where "b = b0 # b1 # b2 # b3 # b4 # b5 # b6 # b7 # rest"
    by (cases b; simp; rename_tac l1, case_tac l1; simp; rename_tac l2, case_tac l2; simp;
        rename_tac l3, case_tac l3; simp; rename_tac l4, case_tac l4; simp;
        rename_tac l5, case_tac l5; simp; rename_tac l6, case_tac l6; simp;
        rename_tac l7, case_tac l7; simp)
  then show ?thesis by simp
qed

lemma unmarshalWrite_marshalWrite:
  "unmarshalWrite e (marshalWrite e shardID ps) =
     Some (shardID, fst (ParsePoints e (pointLines e ps)), snd (ParsePoints e (pointLines e ps)))"
  by (simp add: marshalWrite_eq unmarshalWrite_long Uint64_PutUint64)

section \<open>Properties of the queue\<close>

lemma current_segs_Inr:
  "current_segs segs = (Inr b, segs1) \<Longrightarrow>
     \<exists>h rest bs. segs1 = h # rest \<and> seg_blocks h = b # bs
        \<and> concat (map seg_blocks segs) = concat (map seg_blocks segs1)"
  by (cases segs) (auto split: list.splits)

lemma advance_segs_head:
  "seg_blocks h = b # bs \<Longrightarrow>
     \<exists>segs2. advance_segs (h # rest) = (None, segs2)
        \<and> concat (map seg_blocks segs2) = bs @ concat (map seg_blocks rest)"
  by auto

lemma queue_Current_Inr:
  assumes "queue_Current q d = (Inr buf, d1)"
  shows "\<exists>d2. queue_Advance q d1 = (None, d2)
          \<and> pending (q_dir q) d = buf # pending (q_dir q) d2
          \<and> pending (q_dir q) d1 = pending (q_dir q) d"
proof -
  from assms have op: "q_opened q"
    by (auto simp: queue_Current_def split: if_splits)
  from assms op obtain segs segs1 where
    d: "d (q_dir q) = Some (Directory segs)" and
    c: "current_segs segs = (Inr buf, segs1)" and
    d1: "d1 = d(q_dir q \<mapsto> Directory segs1)"
    by (auto simp: queue_Current_def split: option.splits node.splits prod.splits)
  from current_segs_Inr[OF c] obtain h rest bs where
    s1: "segs1 = h # rest" and hb: "seg_blocks h = buf # bs" and
    same: "concat (map seg_blocks segs) = concat (map seg_blocks segs1)"
    by blast
  from advance_segs_head[OF hb, of rest] obtain segs2 where
    a: "advance_segs (h # rest) = (None, segs2)" and
    t: "concat (map seg_blocks segs2) = bs @ concat (map seg_blocks rest)"
    by blast
  have "queue_Advance q d1 = (None, d1(q_dir q \<mapsto> Directory segs2))"
    using op d1 s1 a by (simp add: queue_Advance_def)
  moreover have "pending (q_dir q) d = buf # pending (q_dir q) (d1(q_dir q \<mapsto> Directory segs2))"
    using d same s1 hb t by (simp add: pending_def)
  moreover have "pending (q_dir q) d1 = pending (q_dir q) d"
    using d d1 same by (simp add: pending_def)
  ultimately show ?thesis by blast
qed

section \<open>SendWrite\<close>

lemma SendWrite_inactive:
  "DataNode e w (nodeID n) = (None, None) \<Longrightarrow> SendWrite e n d w = Return ((0, Some EOF), n, d, w)"
  by (simp add: SendWrite_def Active_def)

lemma dataNodeLoop_Some:
  "dataNodeLoop ns nid = Some ni \<Longrightarrow> ID ni = nid \<and> (\<exists>x \<in> set ns. ID x = nid)"
  by (induction ns) (auto split: if_splits)

lemma dataNodeLoop_None:
  "dataNodeLoop ns nid = None \<longleftrightarrow> nid \<notin> ID ` set ns"
  by (induction ns) auto

lemma Open_done: "Open n d = (r, n1, d1) \<Longrightarrow> done_chan n1 \<noteq> None"
  by (auto simp: Open_def Let_def split: if_splits prod.splits option.splits sum.splits)

lemma Close_done: "Close n = Return (r, n1) \<Longrightarrow> done_chan n1 = None"
  by (auto simp: Close_def Let_def split: if_splits prod.splits option.splits)

lemma marshalWrite_nonempty: "marshalWrite e sid pts \<noteq> []"
proof
  assume "marshalWrite e sid pts = []"
  then have "length (marshalWrite e sid pts) = 0" by simp
  then show False by (simp add: marshalWrite_eq)
qed

lemma WriteShard_success:
  assumes "WriteShard e n d sid pts = Return (None, n1, d1)" and "queue n = Some q"
  shows "nodeID n1 = nodeID n \<and> queue n1 = queue n
         \<and> WriteShardReq (stats n1) = WriteShardReq (stats n) + 2
         \<and> WriteNodeReq (stats n1) = WriteNodeReq (stats n)
         \<and> WriteNodeReqPoints (stats n1) = WriteNodeReqPoints (stats n)
         \<and> queue_Append q (marshalWrite e sid pts) d = (None, d1)"
proof -
  have op: "done_chan n \<noteq> None"
  proof
    assume "done_chan n = None"
    with assms(1) show False by (simp add: WriteShard_def)
  qed
  obtain r dd where ap: "queue_Append q (marshalWrite e sid pts) d = (r, dd)"
    by (cases "queue_Append q (marshalWrite e sid pts) d")
  show ?thesis
  proof (cases r)
    case None
    with assms op ap show ?thesis
      by (auto simp: WriteShard_def Let_def marshalWrite_nonempty)
  next
    case (Some err)
    with assms op ap show ?thesis
      by (auto simp: WriteShard_def Let_def marshalWrite_nonempty split: if_splits option.splits chan.splits)
  qed
qed

lemma SendWrite_writer_error:
  assumes "Active e n w = (True, None)"
    and "queue n = Some q"
    and "queue_Current q d = (Inr buf, d1)"
    and "unmarshalWrite e buf = Some (sid, pts, None)"
    and "WriterWriteShard e w sid (nodeID n) pts = (Some err, w1)"
    and "err \<noteq> EOF" and "err \<noteq> ErrNodeNotFound"
  shows "\<exists>d2. SendWrite e n d w = Return ((length buf, None), n, d2, w1)
          \<and> pending (q_dir q) d = buf # pending (q_dir q) d2"
proof -
  from queue_Current_Inr[OF assms(3)] obtain d2 where
    adv: "queue_Advance q d1 = (None, d2)" and
    pend: "pending (q_dir q) d = buf # pending (q_dir q) d2"
    by blast
  have "SendWrite e n d w = Return ((length buf, None), n, d2, w1)"
    using assms adv by (simp add: SendWrite_def sendBlock_def)
  with pend show ?thesis by blast
qed

lemma retryTick_error:
  assumes "SendWrite e n d w = Return ((c, Some err), n1, d1, w1)"
    and "err \<noteq> EOF" and "err \<noteq> ErrNodeNotFound"
  shows "retryTick (Suc k) e i n d w =
           Some (Return (Waiting (min i (RetryMaxInterval (cfg n1))), n1, d1, w1))"
  using assms by (simp add: min_def)




lemma marshalWrite_collision:
  "MarshalBinary e = Inr \<Longrightarrow> marshalWrite e sid [[65, 10, 66]] = marshalWrite e sid [[65], [66]]"
  by (simp add: marshalWrite_def)

section \<open>The instances\<close>

lemma lineEnv_simps [simp]:
  "MarshalBinary lineEnv p = (if p = [] \<or> 10 \<in> set p then Inl (ErrOther ''no line'') else Inr p)"
  "ParsePoints lineEnv b = (splitLines [] b, None)"
  "DataNode lineEnv w nid =
     (if nid = 99 then (None, Some (ErrOther ''connection refused''))
      else if nid = 1 \<or> nid = 2 then (Some \<lparr> ID = nid, Host = ''h'', TCPHost = ''t'' \<rparr>, None)
      else (None, None))"
  "WriterWriteShard lineEnv w sid nid points =
     (if sid = 13 then (Some (ErrOther ''connection refused''), w)
      else (None, w @ [(sid, nid, points)]))"
  by (simp_all add: lineEnv_def)

lemma disk0_eq: "disk0 = [''hh/n'' \<mapsto> Directory [\<lparr> seg_id = 1, seg_blocks = [] \<rparr>]]"
  by (simp add: disk0_def Open_def NewNodeProcessor_def os_MkdirAll_def newQueue_def
      queue_Open_def)

lemma proc0_eq:
  "proc0 nid =
     \<lparr> cfg = cfg0, nodeID = nid, dir = ''hh/n'', done_chan = Some ChanOpen, wg = 1,
       queue = Some \<lparr> q_dir = ''hh/n'', q_maxSize = 1048576, q_maxSegmentSize = 10485760,
                      q_opened = True \<rparr>,
       stats = \<lparr> WriteShardReq = 0, WriteShardReqPoints = 0, WriteNodeReqFail = 0,
                 WriteNodeReqPoints = 0, WriteNodeReq = 0, WriteShardConcurrentlyReq = 0,
                 WriteShardConcurrentlyFail = 0, WriteShardConcurrentlyPoints = 0,
                 WriteDiskBytes = 0, WriteDiskSegments = 0 \<rparr> \<rparr>"
  by (simp add: proc0_def Open_def NewNodeProcessor_def os_MkdirAll_def newQueue_def
      queue_Open_def cfg0_def defaultSegmentSize_def queue_TotalBytes_def totalBytes_def
      seg_size_def)

lemma PutUint64_7: "PutUint64 7 = [0, 0, 0, 0, 0, 0, 0, 7]"
  by (simp add: PutUint64_def)

lemma PutUint64_13: "PutUint64 13 = [0, 0, 0, 0, 0, 0, 0, 13]"
  by (simp add: PutUint64_def)

lemma closed0_eq:
  "closed0 nid =
     \<lparr> cfg = cfg0, nodeID = nid, dir = ''hh/n'', done_chan = None, wg = 0,
       queue = Some \<lparr> q_dir = ''hh/n'', q_maxSize = 1048576, q_maxSegmentSize = 10485760,
                      q_opened = False \<rparr>,
       stats = \<lparr> WriteShardReq = 0, WriteShardReqPoints = 0, WriteNodeReqFail = 0,
                 WriteNodeReqPoints = 0, WriteNodeReq = 0, WriteShardConcurrentlyReq = 0,
                 WriteShardConcurrentlyFail = 0, WriteShardConcurrentlyPoints = 0,
                 WriteDiskBytes = 0, WriteDiskSegments = 0 \<rparr> \<rparr>"
  by (simp add: closed0_def Close_def proc0_eq queue_Close_def)

lemma Close_proc0: "Close (proc0 nid) = Return (None, closed0 nid)"
  by (simp add: closed0_eq) (simp add: Close_def proc0_eq queue_Close_def)

lemma Open_new: "Open (NewNodeProcessor nid ''hh/n'' cfg0) Map.empty = (None, proc0 nid, disk0)"
  by (simp add: proc0_eq disk0_eq) 
     (simp add: Open_def NewNodeProcessor_def os_MkdirAll_def newQueue_def
      queue_Open_def cfg0_def defaultSegmentSize_def queue_TotalBytes_def totalBytes_def
      seg_size_def)

lemmas queue_defs = queue_Append_def append_segs_def queue_Current_def queue_Advance_def
  queue_totalSegments_def queue_TotalBytes_def totalBytes_def seg_size_def pending_def

lemma marshal_7_two: "marshalWrite lineEnv 7 [[65], [66]] = [0, 0, 0, 0, 0, 0, 0, 7, 65, 10, 66, 10]"
  by (simp add: marshalWrite_def PutUint64_7)

lemma marshal_13_two: "marshalWrite lineEnv 13 [[65], [66]] = [0, 0, 0, 0, 0, 0, 0, 13, 65, 10, 66, 10]"
  by (simp add: marshalWrite_def PutUint64_13)

lemma marshal_7_none: "marshalWrite lineEnv 7 [[]] = [0, 0, 0, 0, 0, 0, 0, 7]"
  by (simp add: marshalWrite_def PutUint64_7)

lemma marshal_7_empty: "marshalWrite lineEnv 7 [] = [0, 0, 0, 0, 0, 0, 0, 7]"
  by (simp add: marshalWrite_def PutUint64_7)

lemma Uint64_7: "Uint64 [0, 0, 0, 0, 0, 0, 0, 7] = Some 7"
  using Uint64_PutUint64 [of 7] by (simp add: PutUint64_7)

lemma Uint64_13: "Uint64 [0, 0, 0, 0, 0, 0, 0, 13] = Some 13"
  using Uint64_PutUint64 [of 13] by (simp add: PutUint64_13)

lemma WriteShard_7_two:
  "WriteShard lineEnv (proc0 2) disk0 7 [[65], [66]] =
     Return (None,
       (proc0 2)\<lparr>stats := (stats (proc0 2))\<lparr>WriteShardReq := 2, WriteShardReqPoints := 2,
          WriteDiskSegments := 1\<rparr>\<rparr>,
       [''hh/n'' \<mapsto> Directory [\<lparr> seg_id = 1,
          seg_blocks = [[0, 0, 0, 0, 0, 0, 0, 7, 65, 10, 66, 10]] \<rparr>]])"
  by (simp add: WriteShard_def marshal_7_two proc0_eq disk0_eq Let_def queue_defs)

lemma SendWrite_7_two:
  "SendWrite lineEnv
     ((proc0 2)\<lparr>stats := (stats (proc0 2))\<lparr>WriteShardReq := 2, WriteShardReqPoints := 2,
          WriteDiskSegments := 1\<rparr>\<rparr>)
     [''hh/n'' \<mapsto> Directory [\<lparr> seg_id = 1,
          seg_blocks = [[0, 0, 0, 0, 0, 0, 0, 7, 65, 10, 66, 10]] \<rparr>]] [] =
   Return ((12, None),
     (proc0 2)\<lparr>stats := (stats (proc0 2))\<lparr>WriteShardReq := 3, WriteShardReqPoints := 2,
          WriteDiskSegments := 1, WriteNodeReq := 1, WriteNodeReqPoints := 2\<rparr>\<rparr>,
     [''hh/n'' \<mapsto> Directory [\<lparr> seg_id = 1, seg_blocks = [] \<rparr>]],
     [(7, 2, [[65], [66]])])"
  by (simp add: SendWrite_def Active_def sendBlock_def unmarshalWrite_def slice_to_def
      slice_from_def Uint64_7 proc0_eq Let_def queue_defs)

lemma WriteShard_13_two:
  "WriteShard lineEnv (proc0 2) disk0 13 [[65], [66]] =
     Return (None,
       (proc0 2)\<lparr>stats := (stats (proc0 2))\<lparr>WriteShardReq := 2, WriteShardReqPoints := 2,
          WriteDiskSegments := 1\<rparr>\<rparr>,
       [''hh/n'' \<mapsto> Directory [\<lparr> seg_id = 1,
          seg_blocks = [[0, 0, 0, 0, 0, 0, 0, 13, 65, 10, 66, 10]] \<rparr>]])"
  by (simp add: WriteShard_def marshal_13_two proc0_eq disk0_eq Let_def queue_defs)

lemma SendWrite_13_two:
  "SendWrite lineEnv
     ((proc0 2)\<lparr>stats := (stats (proc0 2))\<lparr>WriteShardReq := 2, WriteShardReqPoints := 2,
          WriteDiskSegments := 1\<rparr>\<rparr>)
     [''hh/n'' \<mapsto> Directory [\<lparr> seg_id = 1,
          seg_blocks = [[0, 0, 0, 0, 0, 0, 0, 13, 65, 10, 66, 10]] \<rparr>]] [] =
   Return ((12, None),
     (proc0 2)\<lparr>stats := (stats (proc0 2))\<lparr>WriteShardReq := 2, WriteShardReqPoints := 2,
          WriteDiskSegments := 1\<rparr>\<rparr>,
     [''hh/n'' \<mapsto> Directory [\<lparr> seg_id = 1, seg_blocks = [] \<rparr>]],
     [])"
  by (simp add: SendWrite_def Active_def sendBlock_def unmarshalWrite_def slice_to_def
      slice_from_def Uint64_13 proc0_eq Let_def queue_defs)

lemma rawEnv_simps [simp]:
  "MarshalBinary rawEnv p = Inr p"
  "ParsePoints rawEnv b = (splitLines [] b, None)"
  "DataNode rawEnv = DataNode lineEnv"
  "WriterWriteShard rawEnv = WriterWriteShard lineEnv"
  by (simp_all add: rawEnv_def lineEnv_def)

lemma eofEnv_simps [simp]:
  "MarshalBinary eofEnv = MarshalBinary lineEnv"
  "ParsePoints eofEnv b = ([], Some EOF)"
  "DataNode eofEnv = DataNode lineEnv"
  "WriterWriteShard eofEnv = WriterWriteShard lineEnv"
  by (simp_all add: eofEnv_def lineEnv_def)



lemma marshal_raw: "marshalWrite rawEnv 7 [[65, 10, 66], [67]] = [0, 0, 0, 0, 0, 0, 0, 7, 65, 10, 66, 10, 67, 10]"
  by (simp add: marshalWrite_def PutUint64_7)

lemma WriteShard_raw:
  "WriteShard rawEnv (proc0 2) disk0 7 [[65, 10, 66], [67]] =
     Return (None,
       (proc0 2)\<lparr>stats := (stats (proc0 2))\<lparr>WriteShardReq := 2, WriteShardReqPoints := 2,
          WriteDiskSegments := 1\<rparr>\<rparr>,
       [''hh/n'' \<mapsto> Directory [\<lparr> seg_id = 1,
          seg_blocks = [[0, 0, 0, 0, 0, 0, 0, 7, 65, 10, 66, 10, 67, 10]] \<rparr>]])"
  by (simp add: WriteShard_def marshal_raw proc0_eq disk0_eq Let_def queue_defs)

section \<open>The claims\<close>

text \<open>
  Claim C1. The code at a shard-writer error. The processor for node 2 is open and one block
  for shard 13 with two points is written; the shard writer fails on it with a generic
  error. \<^verbatim>\<open>SendWrite\<close> then returns 12 bytes and a nil error, the queue is empty and
  the remote side has received nothing: the error is not returned and the block is not kept
  at the head of the queue. (\<open>SendWrite_writer_error\<close> above shows the same for every
  writer error other than \<^verbatim>\<open>io.EOF\<close> and \<^verbatim>\<open>meta.ErrNodeNotFound\<close>.)
\<close>

theorem SendWrite_writer_error_advances:
  "WriterWriteShard lineEnv [] 13 2 [[65], [66]] = (Some (ErrOther ''connection refused''), [])
   \<and> observeWrite ''hh/n'' (WriteShard lineEnv (proc0 2) disk0 13 [[65], [66]]) =
       Some (None,
           (2, 2, 0, 0, 0),
           [[0, 0, 0, 0, 0, 0, 0, 13, 65, 10, 66, 10]])
   \<and> observeSend ''hh/n'' (writeThenSend lineEnv (proc0 2) disk0 [] 13 [[65], [66]]) =
       Some ((12, None),
           (2, 2, 0, 0, 0),
           [], [])"
proof (intro conjI)
  show "WriterWriteShard lineEnv [] 13 2 [[65], [66]] = (Some (ErrOther ''connection refused''), [])"
    by simp
  show "observeWrite ''hh/n'' (WriteShard lineEnv (proc0 2) disk0 13 [[65], [66]]) =
       Some (None,
           (2, 2, 0, 0, 0),
           [[0, 0, 0, 0, 0, 0, 0, 13, 65, 10, 66, 10]])"
    by (simp only: observeWrite_def WriteShard_13_two outcome.case prod.case)
       (simp add: proc0_eq pending_def counters_def)
  show "observeSend ''hh/n'' (writeThenSend lineEnv (proc0 2) disk0 [] 13 [[65], [66]]) =
       Some ((12, None),
           (2, 2, 0, 0, 0),
           [], [])"
    by (simp only: observeSend_def writeThenSend_def WriteShard_13_two SendWrite_13_two
          outcome.case prod.case option.case)
       (simp add: proc0_eq pending_def counters_def)
qed

text \<open>
  Claim C2. The code at a \<^verbatim>\<open>SendWrite\<close> error that is neither \<^verbatim>\<open>io.EOF\<close> nor
  \<^verbatim>\<open>meta.ErrNodeNotFound\<close>. With a retry interval of 100ms and a maximum of 800ms the
  worker starts at 100ms; the metadata client fails for node 99, so \<^verbatim>\<open>SendWrite\<close>
  returns that error; the worker then waits with an interval of 100ms again: the interval
  is capped, never doubled. When it is the shard writer that fails (the block for shard 13),
  the error does not reach the worker at all: the tick drains the queue and ends on
  \<^verbatim>\<open>io.EOF\<close> with the interval of the configuration. (\<open>retryTick_error\<close>
  above: the new interval is the minimum of the old one and the maximum.)
\<close>

theorem retry_interval_not_doubled:
  "run_start cfg0 = 100000000
   \<and> RetryMaxInterval cfg0 = 800000000
   \<and> SendWrite lineEnv (proc0 99) disk0 [] =
       Return ((0, Some (ErrOther ''connection refused'')), proc0 99, disk0, [])
   \<and> retryTick 1 lineEnv 100000000 (proc0 99) disk0 [] =
       Some (Return (Waiting 100000000, proc0 99, disk0, []))
   \<and> observeTick ''hh/n''
        (retryTick 2 lineEnv 100000000
           ((proc0 2)\<lparr>stats := (stats (proc0 2))\<lparr>WriteShardReq := 2, WriteShardReqPoints := 2,
              WriteDiskSegments := 1\<rparr>\<rparr>)
           [''hh/n'' \<mapsto> Directory [\<lparr> seg_id = 1,
              seg_blocks = [[0, 0, 0, 0, 0, 0, 0, 13, 65, 10, 66, 10]] \<rparr>]] [])
       = Some (Waiting 100000000, (2, 2, 0, 0, 0), [], [])"
proof -
  have s: "SendWrite lineEnv (proc0 99) disk0 [] =
       Return ((0, Some (ErrOther ''connection refused'')), proc0 99, disk0, [])"
    by (simp add: SendWrite_def Active_def proc0_eq)
  have c: "cfg (proc0 99) = cfg0" by (simp add: proc0_eq)
  have "retryTick (Suc 0) lineEnv 100000000 (proc0 99) disk0 [] =
       Some (Return (Waiting 100000000, proc0 99, disk0, []))"
    by (simp only: retryTick.simps s outcome.case prod.case option.case c)
       (simp add: cfg0_def)
  moreover have "observeTick ''hh/n''
        (retryTick (Suc (Suc 0)) lineEnv 100000000
           ((proc0 2)\<lparr>stats := (stats (proc0 2))\<lparr>WriteShardReq := 2, WriteShardReqPoints := 2,
              WriteDiskSegments := 1\<rparr>\<rparr>)
           [''hh/n'' \<mapsto> Directory [\<lparr> seg_id = 1,
              seg_blocks = [[0, 0, 0, 0, 0, 0, 0, 13, 65, 10, 66, 10]] \<rparr>]] [])
       = Some (Waiting 100000000, (2, 2, 0, 0, 0), [], [])"
    by (simp only: retryTick.simps SendWrite_13_two outcome.case prod.case option.case)
       (simp add: SendWrite_def Active_def proc0_eq queue_defs observeTick_def counters_def
          cfg0_def)
  ultimately show ?thesis using s by (simp add: run_start_def cfg0_def numeral_2_eq_2)
qed

text \<open>
  Claim C3. The code at a batch of which no point encodes. On the open processor with an
  empty queue, \<^verbatim>\<open>WriteShard\<close> for shard 7 with one point that does not encode, or with
  no point at all, returns nil and appends a block of 8 bytes, the shard ID: the block of
  \<^verbatim>\<open>marshalWrite\<close> is never empty, so the test \<^verbatim>\<open>len(b) == 0\<close> never holds.
\<close>

theorem WriteShard_appends_empty_batch:
  "\<not> encodes lineEnv []
   \<and> pending ''hh/n'' disk0 = []
   \<and> observeWrite ''hh/n'' (WriteShard lineEnv (proc0 2) disk0 7 [[]]) =
       Some (None,
           (2, 1, 0, 0, 0),
           [[0, 0, 0, 0, 0, 0, 0, 7]])
   \<and> observeWrite ''hh/n'' (WriteShard lineEnv (proc0 2) disk0 7 []) =
       Some (None,
           (2, 0, 0, 0, 0),
           [[0, 0, 0, 0, 0, 0, 0, 7]])"
  by (simp add: encodes_def observeWrite_def counters_def WriteShard_def marshal_7_none marshal_7_empty
      proc0_eq disk0_eq Let_def queue_defs)

text \<open>
  Claim C4. When the metadata client answers with a nil node info and no error, \<^verbatim>\<open>SendWrite\<close>
  returns \<^verbatim>\<open>io.EOF\<close> with 0 bytes and leaves the processor, the disk (the queue is not
  read) and the remote side as they were. \<^verbatim>\<open>dataNode\<close> of the store returns nil exactly
  for the IDs that no data node has, and a node info it returns has the ID asked for; so
  with a client that answers from the store, \<^verbatim>\<open>SendWrite\<close> returns \<^verbatim>\<open>io.EOF\<close> for
  every node that is not in the list of data nodes.
\<close>

theorem SendWrite_not_member:
  "(DataNode e w (nodeID n) = (None, None) \<longrightarrow> SendWrite e n d w = Return ((0, Some EOF), n, d, w))
   \<and> (dataNode s nid = None \<longleftrightarrow> nid \<notin> ID ` set (DataNodes (data s)))
   \<and> (dataNode s nid = Some ni \<longrightarrow> ID ni = nid)
   \<and> (DataNode e = storeClient s \<and> nodeID n \<notin> ID ` set (DataNodes (data s))
        \<longrightarrow> SendWrite e n d w = Return ((0, Some EOF), n, d, w))"
proof (intro conjI impI)
  show "SendWrite e n d w = Return ((0, Some EOF), n, d, w)" if "DataNode e w (nodeID n) = (None, None)"
    using that by (rule SendWrite_inactive)
  show "dataNode s nid = None \<longleftrightarrow> nid \<notin> ID ` set (DataNodes (data s))"
    by (simp add: dataNode_def dataNodeLoop_None)
  show "ID ni = nid" if "dataNode s nid = Some ni"
    using that dataNodeLoop_Some by (auto simp: dataNode_def)
  show "SendWrite e n d w = Return ((0, Some EOF), n, d, w)"
    if "DataNode e = storeClient s \<and> nodeID n \<notin> ID ` set (DataNodes (data s))"
  proof -
    from that have "DataNode e w (nodeID n) = (None, None)"
      by (simp add: storeClient_def dataNode_def dataNodeLoop_None)
    then show ?thesis by (rule SendWrite_inactive)
  qed
qed

theorem SendWrite_not_member_witness:
  "DataNode lineEnv [] (nodeID (proc0 5)) = (None, None)
   \<and> SendWrite lineEnv (proc0 5) disk0 [] = Return ((0, Some EOF), proc0 5, disk0, [])
   \<and> dataNode \<lparr> data = \<lparr> MetaNodes = [], DataNodes = [\<lparr> ID = 1, Host = ''a'', TCPHost = ''b'' \<rparr>] \<rparr> \<rparr> 1
        = Some \<lparr> ID = 1, Host = ''a'', TCPHost = ''b'' \<rparr>
   \<and> dataNode \<lparr> data = \<lparr> MetaNodes = [], DataNodes = [\<lparr> ID = 1, Host = ''a'', TCPHost = ''b'' \<rparr>] \<rparr> \<rparr> 5
        = None"
  using SendWrite_not_member [of lineEnv "[]" "proc0 5" disk0
      "\<lparr> data = \<lparr> MetaNodes = [], DataNodes = [\<lparr> ID = 1, Host = ''a'', TCPHost = ''b'' \<rparr>] \<rparr> \<rparr>" 5]
  by (simp add: proc0_eq dataNode_def)







text \<open>
  Claim C7. As stated the claim fails: after one \<^verbatim>\<open>WriteShard\<close> with two points and one
  \<^verbatim>\<open>SendWrite\<close> on a processor opened on an empty directory, with a writer that
  succeeds, \<^verbatim>\<open>WriteShardReq\<close> reads 3, not 1.
\<close>

theorem writeShardReq_counterexample:
  "observeSend ''hh/n'' (writeThenSend lineEnv (proc0 2) disk0 [] 7 [[65], [66]]) =
     Some ((12, None),
           (3, 2, 1, 2, 0),
           [], [(7, 2, [[65], [66]])])"
  by (simp only: observeSend_def writeThenSend_def WriteShard_7_two SendWrite_7_two
        outcome.case prod.case option.case)
     (simp add: proc0_eq pending_def counters_def)

text \<open>
  Claim C7, amended. Let \<^verbatim>\<open>WriteShard\<close> succeed on a processor with a queue, let the block it
  wrote be the current block of the queue, the node be active, \<^verbatim>\<open>ParsePoints\<close> decode
  the block without error and the shard writer succeed on the decoded points. Then
  \<^verbatim>\<open>SendWrite\<close> returns the length of the block with a nil error and the queue loses
  the block; over both calls \<^verbatim>\<open>WriteShardReq\<close> has grown by 3 (twice in
  \<^verbatim>\<open>WriteShard\<close>, once in \<^verbatim>\<open>SendWrite\<close>), \<^verbatim>\<open>WriteNodeReq\<close> by 1 and
  \<^verbatim>\<open>WriteNodeReqPoints\<close> by the number of points decoded: by 2 when two points are
  decoded. The witness has a write of two points that are decoded as two, and one of two
  points that are decoded as three.
\<close>

theorem counters_after_write_and_send:
  assumes "WriteShard e n d sid pts = Return (None, n1, d1)"
    and "queue n = Some q"
    and "queue_Current q d1 = (Inr (marshalWrite e sid pts), dc)"
    and "Active e n w = (True, None)"
    and "ParsePoints e (pointLines e pts) = (pts1, None)"
    and "WriterWriteShard e w sid (nodeID n) pts1 = (None, w1)"
  shows "\<exists>n2 d2. SendWrite e n1 d1 w = Return ((length (marshalWrite e sid pts), None), n2, d2, w1)
      \<and> WriteShardReq (stats n2) = WriteShardReq (stats n) + 3
      \<and> WriteNodeReq (stats n2) = WriteNodeReq (stats n) + 1
      \<and> WriteNodeReqPoints (stats n2) = WriteNodeReqPoints (stats n) + int (length pts1)
      \<and> (length pts1 = 2 \<longrightarrow> WriteNodeReqPoints (stats n2) = WriteNodeReqPoints (stats n) + 2)
      \<and> pending (q_dir q) d1 = marshalWrite e sid pts # pending (q_dir q) d2"
proof -
  from WriteShard_success[OF assms(1,2)] have
    nid: "nodeID n1 = nodeID n" and qq: "queue n1 = Some q" and
    c1: "WriteShardReq (stats n1) = WriteShardReq (stats n) + 2" and
    c2: "WriteNodeReq (stats n1) = WriteNodeReq (stats n)" and
    c3: "WriteNodeReqPoints (stats n1) = WriteNodeReqPoints (stats n)"
    using assms(2) by simp_all
  from queue_Current_Inr[OF assms(3)] obtain d2 where
    adv: "queue_Advance q dc = (None, d2)" and
    pend: "pending (q_dir q) d1 = marshalWrite e sid pts # pending (q_dir q) d2"
    by blast
  have act: "Active e n1 w = (True, None)"
    using assms(4) nid by (simp add: Active_def)
  have dec: "unmarshalWrite e (marshalWrite e sid pts) = Some (sid, pts1, None)"
    using assms(5) by (simp add: unmarshalWrite_marshalWrite)
  let ?n2 = "n1\<lparr>stats := (stats n1)\<lparr>WriteShardReq := WriteShardReq (stats n1) + 1,
      WriteNodeReq := WriteNodeReq (stats n1) + 1,
      WriteNodeReqPoints := WriteNodeReqPoints (stats n1) + int (length pts1)\<rparr>\<rparr>"
  have sb: "sendBlock e n1 w (marshalWrite e sid pts) = Return (None, ?n2, w1)"
    using dec assms(6) nid by (simp add: sendBlock_def Let_def)
  have "SendWrite e n1 d1 w = Return ((length (marshalWrite e sid pts), None), ?n2, d2, w1)"
    using act qq assms(3) sb adv by (simp add: SendWrite_def)
  moreover have "WriteShardReq (stats ?n2) = WriteShardReq (stats n) + 3"
    using c1 by simp
  moreover have "WriteNodeReq (stats ?n2) = WriteNodeReq (stats n) + 1"
    using c2 by simp
  moreover have k: "WriteNodeReqPoints (stats ?n2) = WriteNodeReqPoints (stats n) + int (length pts1)"
    using c3 by simp
  moreover have "length pts1 = 2 \<longrightarrow> WriteNodeReqPoints (stats ?n2) = WriteNodeReqPoints (stats n) + 2"
    using k by simp
  ultimately show ?thesis using pend by blast
qed

theorem counters_after_write_and_send_witness:
  "WriteShard lineEnv (proc0 2) disk0 7 [[65], [66]] =
     Return (None,
       (proc0 2)\<lparr>stats := (stats (proc0 2))\<lparr>WriteShardReq := 2, WriteShardReqPoints := 2,
          WriteDiskSegments := 1\<rparr>\<rparr>,
       [''hh/n'' \<mapsto> Directory [\<lparr> seg_id = 1,
          seg_blocks = [[0, 0, 0, 0, 0, 0, 0, 7, 65, 10, 66, 10]] \<rparr>]])
   \<and> Active lineEnv (proc0 2) [] = (True, None)
   \<and> ParsePoints lineEnv (pointLines lineEnv [[65], [66]]) = ([[65], [66]], None)
   \<and> WriterWriteShard lineEnv [] 7 (nodeID (proc0 2)) [[65], [66]] = (None, [(7, 2, [[65], [66]])])
   \<and> (\<exists>n2 d2.
         SendWrite lineEnv
           ((proc0 2)\<lparr>stats := (stats (proc0 2))\<lparr>WriteShardReq := 2, WriteShardReqPoints := 2,
              WriteDiskSegments := 1\<rparr>\<rparr>)
           [''hh/n'' \<mapsto> Directory [\<lparr> seg_id = 1,
              seg_blocks = [[0, 0, 0, 0, 0, 0, 0, 7, 65, 10, 66, 10]] \<rparr>]] []
           = Return ((12, None), n2, d2, [(7, 2, [[65], [66]])])
         \<and> WriteShardReq (stats n2) = 3
         \<and> WriteNodeReq (stats n2) = 1
         \<and> WriteNodeReqPoints (stats n2) = 2
         \<and> pending ''hh/n'' d2 = [])
   \<and> WriteShard rawEnv (proc0 2) disk0 7 [[65, 10, 66], [67]] =
     Return (None,
       (proc0 2)\<lparr>stats := (stats (proc0 2))\<lparr>WriteShardReq := 2, WriteShardReqPoints := 2,
          WriteDiskSegments := 1\<rparr>\<rparr>,
       [''hh/n'' \<mapsto> Directory [\<lparr> seg_id = 1,
          seg_blocks = [[0, 0, 0, 0, 0, 0, 0, 7, 65, 10, 66, 10, 67, 10]] \<rparr>]])
   \<and> ParsePoints rawEnv (pointLines rawEnv [[65, 10, 66], [67]]) = ([[65], [66], [67]], None)
   \<and> (\<exists>n2 d2.
         SendWrite rawEnv
           ((proc0 2)\<lparr>stats := (stats (proc0 2))\<lparr>WriteShardReq := 2, WriteShardReqPoints := 2,
              WriteDiskSegments := 1\<rparr>\<rparr>)
           [''hh/n'' \<mapsto> Directory [\<lparr> seg_id = 1,
              seg_blocks = [[0, 0, 0, 0, 0, 0, 0, 7, 65, 10, 66, 10, 67, 10]] \<rparr>]] []
           = Return ((14, None), n2, d2, [(7, 2, [[65], [66], [67]])])
         \<and> WriteShardReq (stats n2) = 3
         \<and> WriteNodeReq (stats n2) = 1
         \<and> WriteNodeReqPoints (stats n2) = 3
         \<and> pending ''hh/n'' d2 = [])"
proof -
  let ?q = "\<lparr> q_dir = ''hh/n'', q_maxSize = 1048576, q_maxSegmentSize = 10485760, q_opened = True \<rparr>"
  let ?n1 = "(proc0 2)\<lparr>stats := (stats (proc0 2))\<lparr>WriteShardReq := 2, WriteShardReqPoints := 2,
          WriteDiskSegments := 1\<rparr>\<rparr>"
  let ?d1 = "[''hh/n'' \<mapsto> Directory [\<lparr> seg_id = 1,
          seg_blocks = [[0, 0, 0, 0, 0, 0, 0, 7, 65, 10, 66, 10 :: byte]] \<rparr>]]"
  let ?d3 = "[''hh/n'' \<mapsto> Directory [\<lparr> seg_id = 1,
          seg_blocks = [[0, 0, 0, 0, 0, 0, 0, 7, 65, 10, 66, 10, 67, 10 :: byte]] \<rparr>]]"
  have w: "WriteShard lineEnv (proc0 2) disk0 7 [[65], [66]] = Return (None, ?n1, ?d1)"
    by (rule WriteShard_7_two)
  have q: "queue (proc0 2) = Some ?q"
    by (simp add: proc0_eq)
  have c: "queue_Current ?q ?d1 = (Inr (marshalWrite lineEnv 7 [[65], [66]]), ?d1)"
    by (simp add: marshal_7_two queue_Current_def)
  have a: "Active lineEnv (proc0 2) [] = (True, None)"
    by (simp add: Active_def proc0_eq)
  have p: "ParsePoints lineEnv (pointLines lineEnv [[65], [66]]) = ([[65], [66]], None)"
    by (simp add: pointLines_def)
  have r: "WriterWriteShard lineEnv [] 7 (nodeID (proc0 2)) [[65], [66]] = (None, [(7, 2, [[65], [66]])])"
    by (simp add: proc0_eq)
  from counters_after_write_and_send [OF w q c a p r] obtain n2 d2 where
    s: "SendWrite lineEnv ?n1 ?d1 [] =
          Return ((length (marshalWrite lineEnv 7 [[65], [66]]), None), n2, d2, [(7, 2, [[65], [66]])])" and
    k1: "WriteShardReq (stats n2) = WriteShardReq (stats (proc0 2)) + 3" and
    k2: "WriteNodeReq (stats n2) = WriteNodeReq (stats (proc0 2)) + 1" and
    k3: "WriteNodeReqPoints (stats n2) = WriteNodeReqPoints (stats (proc0 2)) + int (length [[65], [66 :: byte]])" and
    pe: "pending (q_dir ?q) ?d1 = marshalWrite lineEnv 7 [[65], [66]] # pending (q_dir ?q) d2"
    by blast
  have s1: "SendWrite lineEnv ?n1 ?d1 [] = Return ((12, None), n2, d2, [(7, 2, [[65], [66]])])"
    using s by (simp add: marshal_7_two)
  have j1: "WriteShardReq (stats n2) = 3" using k1 by (simp add: proc0_eq)
  have j2: "WriteNodeReq (stats n2) = 1" using k2 by (simp add: proc0_eq)
  have j3: "WriteNodeReqPoints (stats n2) = 2" using k3 by (simp add: proc0_eq)
  have j4: "pending ''hh/n'' d2 = []" using pe by (simp add: pending_def marshal_7_two)
  have first: "\<exists>n2 d2. SendWrite lineEnv ?n1 ?d1 [] = Return ((12, None), n2, d2, [(7, 2, [[65], [66]])])
         \<and> WriteShardReq (stats n2) = 3 \<and> WriteNodeReq (stats n2) = 1
         \<and> WriteNodeReqPoints (stats n2) = 2 \<and> pending ''hh/n'' d2 = []"
    using s1 j1 j2 j3 j4 by blast
  have w3: "WriteShard rawEnv (proc0 2) disk0 7 [[65, 10, 66], [67]] = Return (None, ?n1, ?d3)"
    by (rule WriteShard_raw)
  have c3: "queue_Current ?q ?d3 = (Inr (marshalWrite rawEnv 7 [[65, 10, 66], [67]]), ?d3)"
    by (simp add: marshal_raw queue_Current_def)
  have a3: "Active rawEnv (proc0 2) [] = (True, None)"
    by (simp add: Active_def proc0_eq)
  have p3: "ParsePoints rawEnv (pointLines rawEnv [[65, 10, 66], [67]]) = ([[65], [66], [67]], None)"
    by (simp add: pointLines_def)
  have r3: "WriterWriteShard rawEnv [] 7 (nodeID (proc0 2)) [[65], [66], [67]] = (None, [(7, 2, [[65], [66], [67]])])"
    by (simp add: proc0_eq)
  from counters_after_write_and_send [OF w3 q c3 a3 p3 r3] obtain m2 e2 where
    t: "SendWrite rawEnv ?n1 ?d3 [] =
          Return ((length (marshalWrite rawEnv 7 [[65, 10, 66], [67]]), None), m2, e2, [(7, 2, [[65], [66], [67]])])" and
    l1: "WriteShardReq (stats m2) = WriteShardReq (stats (proc0 2)) + 3" and
    l2: "WriteNodeReq (stats m2) = WriteNodeReq (stats (proc0 2)) + 1" and
    l3: "WriteNodeReqPoints (stats m2) = WriteNodeReqPoints (stats (proc0 2)) + int (length [[65], [66], [67 :: byte]])" and
    qe: "pending (q_dir ?q) ?d3 = marshalWrite rawEnv 7 [[65, 10, 66], [67]] # pending (q_dir ?q) e2"
    by blast
  have t1: "SendWrite rawEnv ?n1 ?d3 [] = Return ((14, None), m2, e2, [(7, 2, [[65], [66], [67]])])"
    using t by (simp add: marshal_raw)
  have i1: "WriteShardReq (stats m2) = 3" using l1 by (simp add: proc0_eq)
  have i2: "WriteNodeReq (stats m2) = 1" using l2 by (simp add: proc0_eq)
  have i3: "WriteNodeReqPoints (stats m2) = 3" using l3 by (simp add: proc0_eq)
  have i4: "pending ''hh/n'' e2 = []" using qe by (simp add: pending_def marshal_raw)
  have second: "\<exists>n2 d2. SendWrite rawEnv ?n1 ?d3 [] = Return ((14, None), n2, d2, [(7, 2, [[65], [66], [67]])])
         \<and> WriteShardReq (stats n2) = 3 \<and> WriteNodeReq (stats n2) = 1
         \<and> WriteNodeReqPoints (stats n2) = 3 \<and> pending ''hh/n'' d2 = []"
    using t1 i1 i2 i3 i4 by blast
  show ?thesis using w a p r first w3 p3 second by blast
qed

text \<open>
  Claim C8. On an open processor (\<^verbatim>\<open>done\<close> is not nil) \<^verbatim>\<open>Purge\<close> returns an error
  and leaves the disk as it is. On a closed processor it returns nil, and afterwards the
  directory of the processor and every path below it are gone while every other path is as
  before.
\<close>

theorem Purge_open_closed:
  "(done_chan n \<noteq> None \<longrightarrow> Purge n d = (Some ErrProcessorOpen, d))
   \<and> (done_chan n = None \<longrightarrow>
        fst (Purge n d) = None
        \<and> (\<forall>p. snd (Purge n d) p = (if below (dir n) p then None else d p)))"
  by (simp add: Purge_def os_RemoveAll_def)

theorem Purge_open_closed_witness:
  "done_chan (proc0 2) = Some ChanOpen
   \<and> Purge (proc0 2) disk1 = (Some ErrProcessorOpen, disk1)
   \<and> disk1 ''hh/n'' = Some (Directory [\<lparr> seg_id = 1, seg_blocks = [] \<rparr>])
   \<and> done_chan (closed0 2) = None
   \<and> fst (Purge (closed0 2) disk1) = None
   \<and> snd (Purge (closed0 2) disk1) ''hh/n'' = None
   \<and> snd (Purge (closed0 2) disk1) ''hh/n/tmp'' = None
   \<and> snd (Purge (closed0 2) disk1) ''hh/m'' = Some (Directory [])
   \<and> snd (Purge (closed0 2) disk1) ''hh/nn'' = Some RegularFile"
  using Purge_open_closed [of "proc0 2" disk1] Purge_open_closed [of "closed0 2" disk1]
  by (simp add: proc0_eq closed0_eq disk1_def disk0_eq below_def)

text \<open>
  Claim C9. After \<^verbatim>\<open>Open\<close> has returned, with or without an error, \<^verbatim>\<open>done\<close> is set, and
  a second \<^verbatim>\<open>Open\<close> returns nil and changes neither the processor (its queue, its
  worker count, its channel) nor the disk. After \<^verbatim>\<open>Close\<close> has returned,
  \<^verbatim>\<open>done\<close> is nil, and a second \<^verbatim>\<open>Close\<close> returns nil and changes nothing.
\<close>

theorem Open_Close_idempotent:
  "(Open n d = (r, n1, d1) \<longrightarrow> done_chan n1 \<noteq> None \<and> Open n1 d1 = (None, n1, d1))
   \<and> (Close m = Return (r2, n2) \<longrightarrow> done_chan n2 = None \<and> Close n2 = Return (None, n2))"
proof (intro conjI impI)
  assume o: "Open n d = (r, n1, d1)"
  then show "done_chan n1 \<noteq> None" by (rule Open_done)
  then show "Open n1 d1 = (None, n1, d1)" by (simp add: Open_def)
next
  assume c: "Close m = Return (r2, n2)"
  then show "done_chan n2 = None" by (rule Close_done)
  then show "Close n2 = Return (None, n2)" by (simp add: Close_def)
qed

theorem Open_Close_idempotent_witness:
  "Open (NewNodeProcessor 2 ''hh/n'' cfg0) Map.empty = (None, proc0 2, disk0)
   \<and> Open (proc0 2) disk0 = (None, proc0 2, disk0)
   \<and> Close (proc0 2) = Return (None, closed0 2)
   \<and> Close (closed0 2) = Return (None, closed0 2)"
  using Open_Close_idempotent [of "NewNodeProcessor 2 ''hh/n'' cfg0" Map.empty None "proc0 2" disk0
      "proc0 2" None "closed0 2"]
  by (simp add: Open_new Close_proc0)

text \<open>
  Claim C10. \<^verbatim>\<open>unmarshalWrite\<close> never panics: on fewer than 8 bytes it returns the
  too-short error, on 8 bytes or more it decodes the shard ID from the first 8 bytes and parses
  the rest. \<^verbatim>\<open>marshalWrite\<close> always returns at least 8 bytes, so on its output
  \<^verbatim>\<open>unmarshalWrite\<close> takes the decoding branch.
\<close>

theorem unmarshalWrite_total:
  "unmarshalWrite e b \<noteq> None
   \<and> (length b < 8 \<longrightarrow> unmarshalWrite e b = Some (0, [], Some (ErrTooShort (length b))))
   \<and> (8 \<le> length b \<longrightarrow>
        (\<exists>sid. Uint64 (take 8 b) = Some sid
           \<and> unmarshalWrite e b = Some (sid, fst (ParsePoints e (drop 8 b)), snd (ParsePoints e (drop 8 b)))))
   \<and> 8 \<le> length (marshalWrite e shardID ps)
   \<and> unmarshalWrite e (marshalWrite e shardID ps)
        = Some (shardID, fst (ParsePoints e (drop 8 (marshalWrite e shardID ps))),
                         snd (ParsePoints e (drop 8 (marshalWrite e shardID ps))))"
proof (intro conjI impI)
  show short: "unmarshalWrite e b = Some (0, [], Some (ErrTooShort (length b)))" if "length b < 8"
    using that by (simp add: unmarshalWrite_def)
  show long: "\<exists>sid. Uint64 (take 8 b) = Some sid
           \<and> unmarshalWrite e b = Some (sid, fst (ParsePoints e (drop 8 b)), snd (ParsePoints e (drop 8 b)))"
    if "8 \<le> length b"
  proof -
    from that have "8 \<le> length (take 8 b)" by simp
    then obtain sid where "Uint64 (take 8 b) = Some sid" using Uint64_total by blast
    with that show ?thesis using unmarshalWrite_long by blast
  qed
  show "unmarshalWrite e b \<noteq> None"
    using short long by (cases "length b < 8") auto
  show "8 \<le> length (marshalWrite e shardID ps)"
    by (simp add: marshalWrite_eq)
  show "unmarshalWrite e (marshalWrite e shardID ps)
        = Some (shardID, fst (ParsePoints e (drop 8 (marshalWrite e shardID ps))),
                         snd (ParsePoints e (drop 8 (marshalWrite e shardID ps))))"
    by (simp add: unmarshalWrite_marshalWrite) (simp add: marshalWrite_eq)
qed

theorem unmarshalWrite_total_witness:
  "unmarshalWrite lineEnv [1, 2, 3] = Some (0, [], Some (ErrTooShort 3))
   \<and> (8::nat) \<le> length [0, 0, 0, 0, 0, 0, 0, 7, 65, 10 :: byte]
   \<and> Uint64 (take 8 [0, 0, 0, 0, 0, 0, 0, 7, 65, 10]) = Some 7
   \<and> unmarshalWrite lineEnv [0, 0, 0, 0, 0, 0, 0, 7, 65, 10] = Some (7, [[65]], None)"
  using unmarshalWrite_total [of lineEnv "[1, 2, 3]"]
    unmarshalWrite_total [of lineEnv "[0, 0, 0, 0, 0, 0, 0, 7, 65, 10]"]
  by simp

end
